theory Spec2Isabelle
  imports Main "HOL-Library.Word"
begin

unbundle bit_operations_syntax

section \<open>Machine types\<close>

type_synonym u8 = "8 word"
type_synonym u16 = "16 word"
type_synonym u32 = "32 word"

text \<open>
  \<^verbatim>\<open>*(uint16_t*)(p) = htons(x)\<close> leaves the high byte at \<open>p[0]\<close> and the low byte at
  \<open>p[1]\<close> on every host; \<^verbatim>\<open>ntohs(*(uint16_t*)(p))\<close> reads them back.
\<close>

definition htons_store :: "u16 \<Rightarrow> u8 list" where
  "htons_store x = [ucast (drop_bit 8 x), ucast x]"

definition ntohs_load :: "u8 \<Rightarrow> u8 \<Rightarrow> u16" where
  "ntohs_load hi lo = push_bit 8 (ucast hi) OR ucast lo"

text \<open>
  \<open>std::string\<close> holds \<open>char\<close>, the wire buffer holds \<open>uint8_t\<close>; \<open>std::copy\<close> and
  \<open>assign\<close> convert element by element.
\<close>

definition byte_of_char :: "char \<Rightarrow> u8" where
  "byte_of_char c = of_nat (of_char c)"

definition char_of_byte :: "u8 \<Rightarrow> char" where
  "char_of_byte b = char_of (unat b)"

section \<open>visca\_srt\_common.hpp\<close>

text \<open>\<open>enum class MessageType : uint8_t\<close>\<close>

abbreviation (input) VISCA :: u8 where "VISCA \<equiv> 0x01"
abbreviation (input) NDI_TALLY :: u8 where "NDI_TALLY \<equiv> 0x02"

text \<open>\<open>enum class ViscaMessageType : uint8_t\<close>\<close>

abbreviation (input) COMMAND :: u8 where "COMMAND \<equiv> 0x01"
abbreviation (input) RESPONSE :: u8 where "RESPONSE \<equiv> 0x02"
abbreviation (input) INQUIRY :: u8 where "INQUIRY \<equiv> 0x03"
abbreviation (input) ERROR :: u8 where "ERROR \<equiv> 0xFF"

text \<open>
  \<open>ViscaSrtException\<close>, one constructor for each message the codec throws it with.
\<close>

datatype ViscaSrtException =
    Message_too_short_for_header
  | Message_data_incomplete
  | Buffer_too_small_for_NDI_tally_message
  | Buffer_too_small_for_NDI_source_name

text \<open>
  \<open>struct ViscaMessage : BaseMessage\<close>. The enumerations have underlying type
  \<open>uint8_t\<close> and are filled by \<open>static_cast\<close> from a wire byte, so a field of
  enumeration type holds any byte.
\<close>

record ViscaMessage =
  protocol_type :: u8
  type_field :: u8
  camera_id :: u8
  sequence :: u16
  length_field :: u16
  data :: "u8 list"

definition ViscaMessage_serialize :: "ViscaMessage \<Rightarrow> u8 list" where
  "ViscaMessage_serialize msg =
     [protocol_type msg, type_field msg, camera_id msg]
       @ htons_store (sequence msg) @ htons_store (length_field msg) @ data msg"

definition ViscaMessage_deserialize :: "u8 list \<Rightarrow> ViscaSrtException + ViscaMessage" where
  "ViscaMessage_deserialize buffer =
     (if length buffer < 7 then Inl Message_too_short_for_header
      else
        let len = ntohs_load (buffer ! 5) (buffer ! 6) in
        if length buffer < unat len + 7 then Inl Message_data_incomplete
        else Inr \<lparr> protocol_type = VISCA,
                   type_field = buffer ! 1,
                   camera_id = buffer ! 2,
                   sequence = ntohs_load (buffer ! 3) (buffer ! 4),
                   length_field = len,
                   data = take (unat len) (drop 7 buffer) \<rparr>)"

text \<open>\<open>visca_util::validate_message\<close>\<close>

abbreviation (input) COMMAND_PREFIX :: u8 where "COMMAND_PREFIX \<equiv> 0x81"
abbreviation (input) INQUIRY_PREFIX :: u8 where "INQUIRY_PREFIX \<equiv> 0x82"
abbreviation (input) RESPONSE_PREFIX :: u8 where "RESPONSE_PREFIX \<equiv> 0x90"
abbreviation (input) TERMINATOR :: u8 where "TERMINATOR \<equiv> 0xFF"

definition validate_message :: "u8 list \<Rightarrow> bool" where
  "validate_message d =
     (if d = [] then False
      else if d ! 0 \<noteq> COMMAND_PREFIX \<and> d ! 0 \<noteq> INQUIRY_PREFIX \<and> d ! 0 \<noteq> RESPONSE_PREFIX
        then False
      else if last d \<noteq> TERMINATOR then False
      else True)"

section \<open>ndi\_tally\_common.hpp\<close>

text \<open>\<open>enum class TallyState : uint8_t\<close>\<close>

abbreviation (input) OFF :: u8 where "OFF \<equiv> 0x00"
abbreviation (input) PROGRAM :: u8 where "PROGRAM \<equiv> 0x01"
abbreviation (input) PREVIEW :: u8 where "PREVIEW \<equiv> 0x02"
abbreviation (input) PROGRAM_PREVIEW :: u8 where "PROGRAM_PREVIEW \<equiv> 0x03"

record NdiTallyMessage =
  ndi_protocol_type :: u8
  ndi_source_name :: string
  state :: u8
  timestamp :: u32

definition NdiTallyMessage_serialize :: "NdiTallyMessage \<Rightarrow> u8 list" where
  "NdiTallyMessage_serialize msg =
     (let name_length = length (ndi_source_name msg) in
      [ndi_protocol_type msg, state msg, of_nat name_length,
       ucast (drop_bit 24 (timestamp msg) AND 0xFF),
       ucast (drop_bit 16 (timestamp msg) AND 0xFF),
       ucast (drop_bit 8 (timestamp msg) AND 0xFF),
       ucast (timestamp msg AND 0xFF)]
        @ map byte_of_char (ndi_source_name msg))"

definition NdiTallyMessage_deserialize :: "u8 list \<Rightarrow> ViscaSrtException + NdiTallyMessage" where
  "NdiTallyMessage_deserialize buffer =
     (if length buffer < 7 then Inl Buffer_too_small_for_NDI_tally_message
      else
        let name_length = buffer ! 2;
            ts = push_bit 24 (ucast (buffer ! 3)) OR push_bit 16 (ucast (buffer ! 4))
                   OR push_bit 8 (ucast (buffer ! 5)) OR ucast (buffer ! 6)
        in
        if length buffer < 7 + unat name_length then Inl Buffer_too_small_for_NDI_source_name
        else Inr \<lparr> ndi_protocol_type = NDI_TALLY,
                   ndi_source_name = map char_of_byte (take (unat name_length) (drop 7 buffer)),
                   state = buffer ! 1,
                   timestamp = ts \<rparr>)"

text \<open>\<open>struct NdiCameraMapping\<close>\<close>

record NdiCameraMapping =
  map_ndi_source_name :: string
  map_camera_id :: u8
  tally_program_enabled :: bool
  tally_preview_enabled :: bool
  program_tally_command :: "u8 list"
  preview_tally_command :: "u8 list"
  tally_off_command :: "u8 list"

section \<open>visca\_srt\_server.cpp\<close>

subsection \<open>class ViscaCamera\<close>

text \<open>
  \<open>last_tally_update\<close> is a \<open>steady_clock\<close> instant, here a tick count; the clock
  reading \<open>now\<close> is an input of the functions that take it.
\<close>

record ViscaCamera =
  name :: string
  ip_address :: string
  port :: u16
  connected :: bool
  socket_fd :: int
  ndi_mapping :: NdiCameraMapping
  current_tally_state :: u8
  last_tally_update :: nat

text \<open>
  A TCP write: the descriptor and the buffer handed to a \<open>send()\<close> call that did not
  fail. Functions that write to a socket return the list of their writes, in order.
\<close>

type_synonym tcp_write = "int \<times> u8 list"

text \<open>The \<open>switch (state)\<close> of \<open>send_tally_command\<close>.\<close>

definition select_tally_command :: "NdiCameraMapping \<Rightarrow> u8 \<Rightarrow> u8 list" where
  "select_tally_command m st =
     (if st = PROGRAM then program_tally_command m
      else if st = PREVIEW then preview_tally_command m
      else tally_off_command m)"

text \<open>
  \<open>ViscaCamera::send_tally_command\<close>. \<open>send_result\<close> is what \<open>send()\<close> returns if it
  is called. The result is the returned flag, the camera afterwards and the writes.
\<close>

definition send_tally_command ::
  "ViscaCamera \<Rightarrow> u8 \<Rightarrow> int \<Rightarrow> nat \<Rightarrow> bool \<times> ViscaCamera \<times> tcp_write list" where
  "send_tally_command cam st send_result now =
     (if \<not> connected cam then (False, cam, [])
      else
        let command = select_tally_command (ndi_mapping cam) st in
        if command = [] then (False, cam, [])
        else if send_result < 0 then (False, cam\<lparr>connected := False\<rparr>, [])
        else (True,
              cam\<lparr>current_tally_state := st, last_tally_update := now\<rparr>,
              [(socket_fd cam, command)]))"

text \<open>\<open>ViscaCamera::update_tally_state\<close>\<close>

definition update_tally_state ::
  "ViscaCamera \<Rightarrow> u8 \<Rightarrow> int \<Rightarrow> nat \<Rightarrow> bool \<times> ViscaCamera \<times> tcp_write list" where
  "update_tally_state cam new_state send_result now =
     (if new_state \<noteq> current_tally_state cam
      then send_tally_command cam new_state send_result now
      else (True, cam, []))"

subsection \<open>class ViscaSrtServer: tally handling\<close>

text \<open>\<open>ViscaSrtServer::process_ndi_tally_message\<close> on \<open>ndi_tally_states_\<close>.\<close>

definition process_ndi_tally_message ::
  "(string \<rightharpoonup> u8) \<Rightarrow> NdiTallyMessage \<Rightarrow> (string \<rightharpoonup> u8)" where
  "process_ndi_tally_message ndi_tally_states msg =
     ndi_tally_states(ndi_source_name msg \<mapsto> state msg)"

text \<open>
  The body of the \<open>for\<close> loop of \<open>ViscaSrtServer::handle_ndi_tally\<close> for one camera of
  the table; the value \<open>update_tally_state\<close> returns is discarded there.
\<close>

definition handle_ndi_tally_camera ::
  "(string \<rightharpoonup> u8) \<Rightarrow> ViscaCamera \<Rightarrow> int \<Rightarrow> nat \<Rightarrow> ViscaCamera \<times> tcp_write list" where
  "handle_ndi_tally_camera ndi_tally_states camera send_result now =
     (if map_ndi_source_name (ndi_mapping camera) \<noteq> [] then
        (case ndi_tally_states (map_ndi_source_name (ndi_mapping camera)) of
           Some st \<Rightarrow> snd (update_tally_state camera st send_result now)
         | None \<Rightarrow> (camera, []))
      else (camera, []))"

subsection \<open>class ViscaSrtServer: cameras\<close>

text \<open>
  \<open>ViscaSrtServer::connect_to_camera\<close>; \<open>fd\<close> is what \<open>socket()\<close> returns and
  \<open>connect_ok\<close> says whether \<open>connect()\<close> succeeds.
\<close>

definition connect_to_camera :: "ViscaCamera \<Rightarrow> int \<Rightarrow> bool \<Rightarrow> bool \<times> ViscaCamera" where
  "connect_to_camera camera fd connect_ok =
     (if fd < 0 then (False, camera\<lparr>socket_fd := fd\<rparr>)
      else if \<not> connect_ok then (False, camera\<lparr>socket_fd := -1\<rparr>)
      else (True, camera\<lparr>socket_fd := fd, connected := True\<rparr>))"

text \<open>
  The \<open>struct ViscaMessage\<close> that the server file declares for its queues
  (\<open>camera_id\<close>, \<open>sequence\<close>, \<open>length\<close>, \<open>data\<close>).
\<close>

record QueuedViscaMessage =
  q_camera_id :: u8
  q_sequence :: u16
  q_length :: u16
  q_data :: "u8 list"

text \<open>
  What the system calls of one pass of \<open>monitor_cameras\<close> over one camera answer:
  \<open>socket()\<close>, \<open>connect()\<close>, \<open>select() > 0\<close>, \<open>recv()\<close> and the bytes received.
\<close>

record monitor_io =
  socket_result :: int
  connect_ok :: bool
  select_ready :: bool
  received :: int
  recv_buffer :: "u8 list"

text \<open>
  The body of the \<open>for\<close> loop of \<open>ViscaSrtServer::monitor_cameras\<close> for the camera
  stored under key \<open>cid\<close>: the camera afterwards and the messages pushed onto
  \<open>message_queues[cid]\<close>.
\<close>

definition monitor_cameras_camera ::
  "u8 \<Rightarrow> ViscaCamera \<Rightarrow> monitor_io \<Rightarrow> ViscaCamera \<times> QueuedViscaMessage list" where
  "monitor_cameras_camera cid camera io =
     (let (ok, cam1) =
            (if \<not> connected camera
             then connect_to_camera camera (socket_result io) (connect_ok io)
             else (True, camera))
      in
      if \<not> ok then (cam1, [])
      else if select_ready io then
        (if received io > 0 then
           (cam1, [\<lparr> q_camera_id = cid, q_sequence = 0,
                     q_length = of_int (received io),
                     q_data = take (nat (received io)) (recv_buffer io) \<rparr>])
         else (cam1\<lparr>connected := False\<rparr>, []))
      else (cam1, []))"

text \<open>
  Modelled from the spec: the enumerators \<open>MessageType::COMMAND\<close>,
  \<open>MessageType::INQUIRY\<close> and \<open>MessageType::RESPONSE\<close> that \<open>process_visca_message\<close>
  names are declared nowhere in the source (\<open>MessageType\<close> has \<open>VISCA\<close> and
  \<open>NDI_TALLY\<close> only); the specification reads them as the \<open>ViscaMessageType\<close>
  enumerators of the same names, the inner VISCA subtype.
\<close>

abbreviation (input) MessageType_COMMAND :: u8 where "MessageType_COMMAND \<equiv> COMMAND"
abbreviation (input) MessageType_INQUIRY :: u8 where "MessageType_INQUIRY \<equiv> INQUIRY"
abbreviation (input) MessageType_RESPONSE :: u8 where "MessageType_RESPONSE \<equiv> RESPONSE"

text \<open>
  \<open>ViscaSrtServer::process_visca_message\<close>. \<open>send_result\<close> and \<open>resp_size\<close> are what
  \<open>send()\<close> and \<open>recv()\<close> on the camera socket return, \<open>response\<close> is the receive
  buffer afterwards. The result is the writes to the camera socket and the datagrams
  handed to \<open>srt_send\<close>.
\<close>

definition process_visca_message ::
  "(u8 \<rightharpoonup> ViscaCamera) \<Rightarrow> ViscaMessage \<Rightarrow> int \<Rightarrow> int \<Rightarrow> u8 list
     \<Rightarrow> tcp_write list \<times> u8 list list" where
  "process_visca_message cameras msg send_result resp_size response =
     (case cameras (camera_id msg) of
        None \<Rightarrow> ([], [])
      | Some cam \<Rightarrow>
          if \<not> connected cam then ([], [])
          else if send_result < 0 then ([], [])
          else if type_field msg = MessageType_COMMAND
                  \<or> type_field msg = MessageType_INQUIRY then
            (if resp_size > 0 then
               ([(socket_fd cam, data msg)],
                [ViscaMessage_serialize
                   \<lparr> protocol_type = VISCA, type_field = MessageType_RESPONSE,
                     camera_id = camera_id msg, sequence = sequence msg,
                     length_field = of_int resp_size,
                     data = take (nat resp_size) response \<rparr>])
             else ([(socket_fd cam, data msg)], []))
          else ([(socket_fd cam, data msg)], []))"

subsection \<open>class ViscaSrtServer: SRT ingress\<close>

text \<open>
  What one pass of the loop of \<open>ViscaSrtServer::handle_srt_client\<close> makes of a received
  datagram, up to the end of its \<open>switch (protocol_type)\<close>: a message for the server to
  process, or the reason why the datagram is not processed.
\<close>

datatype ingress_error =
    Recv_closed
  | Unknown_protocol_type u8
  | Protocol_error ViscaSrtException
  | Invalid_VISCA_message

datatype Message = Visca ViscaMessage | NdiTally NdiTallyMessage

text \<open>
  \<open>buffer\<close> is the receive buffer after \<open>buffer.resize(received)\<close>; it is empty exactly
  when \<open>srt_recv\<close> returned nothing and the loop is left. Both cases erase the first byte
  before they call \<open>deserialize\<close>.
\<close>

definition handle_srt_client_decode :: "u8 list \<Rightarrow> ingress_error + Message" where
  "handle_srt_client_decode buffer =
     (case buffer of
        [] \<Rightarrow> Inl Recv_closed
      | tag # erased \<Rightarrow>
          if tag = VISCA then
            (case ViscaMessage_deserialize erased of
               Inl e \<Rightarrow> Inl (Protocol_error e)
             | Inr msg \<Rightarrow>
                 if \<not> validate_message (data msg) then Inl Invalid_VISCA_message
                 else Inr (Visca msg))
          else if tag = NDI_TALLY then
            (case NdiTallyMessage_deserialize erased of
               Inl e \<Rightarrow> Inl (Protocol_error e)
             | Inr tally_msg \<Rightarrow> Inr (NdiTally tally_msg))
          else Inl (Unknown_protocol_type tag))"

subsection \<open>The tally translator on one camera\<close>

text \<open>
  The operations of the server that touch one camera's tally fields or its connection
  flag, as events: a tally frame from SRT, a tick of \<open>handle_ndi_tally\<close>, a pass of
  \<open>monitor_cameras\<close>. The cameras of the table do not interact in these operations, so
  the state is the tally table and one camera.
\<close>

datatype server_event =
    Srt_tally NdiTallyMessage
  | Tally_tick int nat
  | Monitor_pass monitor_io

fun server_step ::
  "u8 \<Rightarrow> (string \<rightharpoonup> u8) \<times> ViscaCamera \<Rightarrow> server_event
     \<Rightarrow> ((string \<rightharpoonup> u8) \<times> ViscaCamera) \<times> tcp_write list" where
  "server_step cid (tbl, cam) (Srt_tally msg) = ((process_ndi_tally_message tbl msg, cam), [])"
| "server_step cid (tbl, cam) (Tally_tick send_result now) =
     ((tbl, fst (handle_ndi_tally_camera tbl cam send_result now)),
      snd (handle_ndi_tally_camera tbl cam send_result now))"
| "server_step cid (tbl, cam) (Monitor_pass io) =
     ((tbl, fst (monitor_cameras_camera cid cam io)), [])"

fun server_run ::
  "u8 \<Rightarrow> (string \<rightharpoonup> u8) \<times> ViscaCamera \<Rightarrow> server_event list
     \<Rightarrow> (string \<rightharpoonup> u8) \<times> ViscaCamera" where
  "server_run cid s [] = s"
| "server_run cid s (e # es) = server_run cid (fst (server_step cid s e)) es"

text \<open>
  The tally states whose command reached the camera's socket during a run, oldest
  first: a step that wrote to the socket contributes the state that the tick looked up.
\<close>

fun written_states ::
  "u8 \<Rightarrow> (string \<rightharpoonup> u8) \<times> ViscaCamera \<Rightarrow> server_event list \<Rightarrow> u8 list" where
  "written_states cid s [] = []"
| "written_states cid s (e # es) =
     (if snd (server_step cid s e) = [] then []
      else (case fst s (map_ndi_source_name (ndi_mapping (snd s))) of
              Some st \<Rightarrow> [st] | None \<Rightarrow> []))
       @ written_states cid (fst (server_step cid s e)) es"

subsection \<open>Mutexes\<close>

text \<open>
  The three mutexes of \<open>ViscaSrtServer\<close> and, for each member function that takes one,
  the \<open>std::lock_guard\<close> constructions and destructions of one call (one pass of its
  loop), in program order.
\<close>

datatype mutex = cameras_mutex | ndi_tally_mutex | queues_mutex

datatype lock_event = Lock mutex | Unlock mutex

definition handle_ndi_tally_locks :: "lock_event list" where
  "handle_ndi_tally_locks =
     [Lock ndi_tally_mutex, Lock cameras_mutex, Unlock cameras_mutex, Unlock ndi_tally_mutex]"

definition process_ndi_tally_message_locks :: "lock_event list" where
  "process_ndi_tally_message_locks = [Lock ndi_tally_mutex, Unlock ndi_tally_mutex]"

definition process_visca_message_locks :: "lock_event list" where
  "process_visca_message_locks = [Lock cameras_mutex, Unlock cameras_mutex]"

text \<open>
  \<open>handle_srt_client\<close>: \<open>break\<close> and \<open>continue\<close> leave the pass before any guard; the
  other passes run the case's handler and then the forwarding block, which takes
  \<open>cameras_mutex\<close> until the end of the pass.
\<close>

definition handle_srt_client_locks :: "u8 list \<Rightarrow> lock_event list" where
  "handle_srt_client_locks buffer =
     (case handle_srt_client_decode buffer of
        Inl Recv_closed \<Rightarrow> []
      | Inl (Unknown_protocol_type tag) \<Rightarrow> []
      | Inl Invalid_VISCA_message \<Rightarrow> []
      | Inl (Protocol_error e) \<Rightarrow> [Lock cameras_mutex, Unlock cameras_mutex]
      | Inr (Visca msg) \<Rightarrow>
          process_visca_message_locks @ [Lock cameras_mutex, Unlock cameras_mutex]
      | Inr (NdiTally tally_msg) \<Rightarrow>
          process_ndi_tally_message_locks @ [Lock cameras_mutex, Unlock cameras_mutex])"

text \<open>
  \<open>monitor_cameras\<close>: \<open>cameras_mutex\<close> around the whole pass; for each camera,
  \<open>queues_mutex\<close> around the push when a message is queued (\<open>queued\<close> has one flag for
  each camera of the table).
\<close>

definition monitor_cameras_locks :: "bool list \<Rightarrow> lock_event list" where
  "monitor_cameras_locks queued =
     Lock cameras_mutex
       # concat (map (\<lambda>q. if q then [Lock queues_mutex, Unlock queues_mutex] else []) queued)
       @ [Unlock cameras_mutex]"

definition stop_locks :: "lock_event list" where
  "stop_locks =
     [Lock cameras_mutex, Unlock cameras_mutex, Lock ndi_tally_mutex, Unlock ndi_tally_mutex]"

datatype server_path =
    Handle_ndi_tally
  | Handle_srt_client "u8 list"
  | Monitor_cameras "bool list"
  | Stop

fun server_locks :: "server_path \<Rightarrow> lock_event list" where
  "server_locks Handle_ndi_tally = handle_ndi_tally_locks"
| "server_locks (Handle_srt_client buffer) = handle_srt_client_locks buffer"
| "server_locks (Monitor_cameras queued) = monitor_cameras_locks queued"
| "server_locks Stop = stop_locks"

text \<open>
  A path keeps a lock order, given as a rank of the mutexes, when every mutex it takes
  ranks above all the mutexes it holds at that moment.
\<close>

fun keeps_order :: "(mutex \<Rightarrow> nat) \<Rightarrow> mutex list \<Rightarrow> lock_event list \<Rightarrow> bool" where
  "keeps_order rank held [] = True"
| "keeps_order rank held (Lock m # es) =
     (list_all (\<lambda>h. rank h < rank m) held \<and> keeps_order rank (m # held) es)"
| "keeps_order rank held (Unlock m # es) = keeps_order rank (remove1 m held) es"

text \<open>The order \<open>cameras\<close>, \<open>tally_table\<close>, \<open>queues\<close>.\<close>

fun cameras_first :: "mutex \<Rightarrow> nat" where
  "cameras_first cameras_mutex = 0"
| "cameras_first ndi_tally_mutex = 1"
| "cameras_first queues_mutex = 2"

text \<open>The order \<open>tally_table\<close>, \<open>cameras\<close>, \<open>queues\<close>.\<close>

fun tally_first :: "mutex \<Rightarrow> nat" where
  "tally_first ndi_tally_mutex = 0"
| "tally_first cameras_mutex = 1"
| "tally_first queues_mutex = 2"

section \<open>visca\_srt\_client.cpp\<close>

text \<open>\<open>class ViscaEndpoint\<close>; the two intervals are in milliseconds.\<close>

record ViscaEndpoint =
  ep_name :: string
  ep_ip_address :: string
  ep_port :: u16
  ep_camera_id :: u8
  ep_connected :: bool
  ep_socket_fd :: int
  reconnect_interval :: nat
  command_timeout :: nat

text \<open>
  \<open>ViscaSrtClient::send_visca_command\<close>: the buffer it hands to \<open>srt_send\<close>, and its
  result for the value \<open>srt_result\<close> that \<open>srt_send\<close> returns.
\<close>

definition send_visca_command_buffer :: "ViscaMessage \<Rightarrow> u8 list" where
  "send_visca_command_buffer msg =
     [camera_id msg] @ htons_store (sequence msg) @ htons_store (length_field msg) @ data msg"

definition send_visca_command :: "ViscaMessage \<Rightarrow> int \<Rightarrow> bool" where
  "send_visca_command msg srt_result = (srt_result > 0)"

text \<open>
  The branch \<open>received > 0\<close> of \<open>ViscaSrtClient::monitor_endpoints\<close>: the counter
  afterwards and the datagram handed to \<open>srt_send\<close>. The function leaves \<open>msg.type\<close>
  as the constructor left it, unset; \<open>unset_type\<close> is the byte it holds.
\<close>

definition monitor_endpoints_forward ::
  "u16 \<Rightarrow> ViscaEndpoint \<Rightarrow> u8 \<Rightarrow> int \<Rightarrow> u8 list \<Rightarrow> u16 \<times> u8 list" where
  "monitor_endpoints_forward sequence_counter endpoint unset_type received_n buffer =
     (let counter = sequence_counter + 1;
          msg = \<lparr> protocol_type = VISCA, type_field = unset_type,
                  camera_id = ep_camera_id endpoint, sequence = counter,
                  length_field = of_int received_n,
                  data = take (nat received_n) buffer \<rparr>
      in (counter, send_visca_command_buffer msg))"

section \<open>Scenario data\<close>

text \<open>
  The pan command of scenario S1 and the request frame that carries it for camera 3
  with sequence 1; the tally message of scenario S2.
\<close>

definition S1_payload :: "u8 list" where
  "S1_payload = [0x81, 0x01, 0x06, 0x01, 0x0A, 0x0A, 0x03, 0x01, 0xFF]"

definition S1_request :: ViscaMessage where
  "S1_request =
     \<lparr> protocol_type = VISCA, type_field = COMMAND, camera_id = 3, sequence = 1,
       length_field = 9, data = S1_payload \<rparr>"

definition S2_tally :: NdiTallyMessage where
  "S2_tally =
     \<lparr> ndi_protocol_type = NDI_TALLY, ndi_source_name = ''TestCam'', state = PROGRAM,
       timestamp = 1234567890 \<rparr>"

text \<open>The command mapping of the test \<open>ViscaCommandMapping\<close>, on a connected camera 3.\<close>

definition test_mapping :: NdiCameraMapping where
  "test_mapping =
     \<lparr> map_ndi_source_name = ''TestCam'', map_camera_id = 3,
       tally_program_enabled = True, tally_preview_enabled = True,
       program_tally_command = [0x81, 0x01, 0x7E, 0x01, 0x0A, 0x00, 0x02, 0xFF],
       preview_tally_command = [0x81, 0x01, 0x7E, 0x01, 0x0A, 0x00, 0x01, 0xFF],
       tally_off_command = [0x81, 0x01, 0x7E, 0x01, 0x0A, 0x00, 0x03, 0xFF] \<rparr>"

definition camera3 :: ViscaCamera where
  "camera3 =
     \<lparr> name = ''Camera 3'', ip_address = ''192.168.1.103'', port = 52381,
       connected = True, socket_fd = 5, ndi_mapping = test_mapping,
       current_tally_state = OFF, last_tally_update = 0 \<rparr>"

definition camera3_program_disabled :: ViscaCamera where
  "camera3_program_disabled =
     camera3\<lparr>ndi_mapping := test_mapping\<lparr>tally_program_enabled := False\<rparr>\<rparr>"

definition camera3_disconnected :: ViscaCamera where
  "camera3_disconnected = camera3\<lparr>connected := False\<rparr>"

definition camera3_no_preview :: ViscaCamera where
  "camera3_no_preview =
     camera3\<lparr>ndi_mapping := test_mapping\<lparr>preview_tally_command := []\<rparr>\<rparr>"

definition endpoint3 :: ViscaEndpoint where
  "endpoint3 =
     \<lparr> ep_name = ''Controller 3'', ep_ip_address = ''192.168.1.203'', ep_port = 52381,
       ep_camera_id = 3, ep_connected = True, ep_socket_fd = 4,
       reconnect_interval = 5000, command_timeout = 100 \<rparr>"

text \<open>The camera's acknowledgement \<open>90 41 FF\<close> in a 1500-byte receive buffer.\<close>

definition S1_reply_buffer :: "u8 list" where
  "S1_reply_buffer = [0x90, 0x41, 0xFF] @ replicate 1497 0"

definition S1_reply_io :: monitor_io where
  "S1_reply_io =
     \<lparr> socket_result = 5, connect_ok = True, select_ready = True, received = 3,
       recv_buffer = S1_reply_buffer \<rparr>"

text \<open>
  A run on camera 3: the source goes to Program and the write succeeds; it goes to
  Preview and the write fails, which disconnects the camera; a monitor pass reconnects it
  and the next tick writes Preview; at last the source goes to ProgramPreview.
\<close>

definition tally_events :: "server_event list" where
  "tally_events =
     [Srt_tally S2_tally, Tally_tick 8 100,
      Srt_tally (S2_tally\<lparr>state := PREVIEW\<rparr>), Tally_tick (-1) 200,
      Monitor_pass S1_reply_io, Tally_tick 8 300,
      Srt_tally (S2_tally\<lparr>state := PROGRAM_PREVIEW\<rparr>), Tally_tick 8 400]"

text \<open>Overwriting the two enable flags of a camera's mapping.\<close>

definition set_enable_flags :: "bool \<Rightarrow> bool \<Rightarrow> ViscaCamera \<Rightarrow> ViscaCamera" where
  "set_enable_flags p q cam =
     cam\<lparr>ndi_mapping :=
           (ndi_mapping cam)\<lparr>tally_program_enabled := p, tally_preview_enabled := q\<rparr>\<rparr>"

section \<open>Byte-order and character lemmas\<close>

lemma ntohs_load_htons_store:
  "ntohs_load (ucast (drop_bit 8 x)) (ucast x) = x"
  unfolding ntohs_load_def
  by (rule bit_word_eqI) (auto simp: bit_simps)

lemma ucast_and_0xFF: "(ucast ((w::u32) AND 0xFF) :: u8) = ucast w"
proof -
  have m: "(0xFF::u32) = mask 8"
    by (simp add: mask_eq_exp_minus_1)
  show ?thesis
    unfolding m by (rule bit_word_eqI) (simp add: bit_simps)
qed

lemma timestamp_bytes_reassemble:
  "push_bit 24 (ucast (ucast (drop_bit 24 t) :: u8)) OR
   push_bit 16 (ucast (ucast (drop_bit 16 t) :: u8)) OR
   push_bit 8 (ucast (ucast (drop_bit 8 t) :: u8)) OR
   ucast (ucast t :: u8) = (t::u32)"
  (is "?lhs = t")
proof (rule bit_word_eqI)
  fix n :: nat
  assume "n < LENGTH(32)"
  then consider "n < 8" | "8 \<le> n" "n < 16" | "16 \<le> n" "n < 24" | "24 \<le> n" "n < 32"
    by fastforce
  then show "bit ?lhs n = bit t n"
    by cases (auto simp add: bit_simps)
qed

lemma char_of_byte_of_char: "char_of_byte (byte_of_char c) = c"
  by (simp add: char_of_byte_def byte_of_char_def unat_of_nat)

lemma map_char_of_byte_of_char: "map (char_of_byte \<circ> byte_of_char) s = s"
  by (induction s) (simp_all add: char_of_byte_of_char)

lemma length_ViscaMessage_serialize:
  "length (ViscaMessage_serialize m) = 7 + length (data m)"
  by (simp add: ViscaMessage_serialize_def htons_store_def)

lemma length_NdiTallyMessage_serialize:
  "length (NdiTallyMessage_serialize t) = 7 + length (ndi_source_name t)"
  by (simp add: NdiTallyMessage_serialize_def)

section \<open>Frame codec\<close>

lemma ViscaMessage_round_trip:
  assumes "protocol_type m = VISCA" and "unat (length_field m) = length (data m)"
  shows "ViscaMessage_deserialize (ViscaMessage_serialize m) = Inr m"
  using assms
  by (simp add: ViscaMessage_deserialize_def ViscaMessage_serialize_def htons_store_def
      ntohs_load_htons_store)

lemma NdiTallyMessage_round_trip:
  assumes "ndi_protocol_type t = NDI_TALLY" and "length (ndi_source_name t) \<le> 255"
  shows "NdiTallyMessage_deserialize (NdiTallyMessage_serialize t) = Inr t"
proof -
  have n: "unat (of_nat (length (ndi_source_name t)) :: u8) = length (ndi_source_name t)"
    using assms(2) by (simp add: unat_of_nat)
  show ?thesis
    using assms(1)
    by (simp add: NdiTallyMessage_deserialize_def NdiTallyMessage_serialize_def n
        ucast_and_0xFF timestamp_bytes_reassemble map_char_of_byte_of_char)
qed

lemma ViscaMessage_truncated:
  assumes "unat (length_field m) = length (data m)"
    and "k < length (ViscaMessage_serialize m)"
  shows "ViscaMessage_deserialize (take k (ViscaMessage_serialize m))
           = Inl (if k < 7 then Message_too_short_for_header else Message_data_incomplete)"
proof (cases "k < 7")
  case True
  then show ?thesis
    by (simp add: ViscaMessage_deserialize_def length_ViscaMessage_serialize)
next
  case False
  with assms show ?thesis
    by (simp add: ViscaMessage_deserialize_def length_ViscaMessage_serialize)
       (simp add: ViscaMessage_serialize_def htons_store_def ntohs_load_htons_store)
qed

lemma NdiTallyMessage_truncated:
  assumes "length (ndi_source_name t) \<le> 255"
    and "k < length (NdiTallyMessage_serialize t)"
  shows "NdiTallyMessage_deserialize (take k (NdiTallyMessage_serialize t))
           = Inl (if k < 7 then Buffer_too_small_for_NDI_tally_message
                  else Buffer_too_small_for_NDI_source_name)"
proof (cases "k < 7")
  case True
  then show ?thesis
    by (simp add: NdiTallyMessage_deserialize_def length_NdiTallyMessage_serialize)
next
  case False
  have n: "unat (of_nat (length (ndi_source_name t)) :: u8) = length (ndi_source_name t)"
    using assms(1) by (simp add: unat_of_nat)
  from False assms(2) show ?thesis
    by (simp add: NdiTallyMessage_deserialize_def length_NdiTallyMessage_serialize)
       (simp add: NdiTallyMessage_serialize_def n)
qed

text \<open>
  Scenario S2 and the test \<open>MessageDeserialization\<close>: the fourteen bytes decode to the
  tally message for \<open>TestCam\<close>.
\<close>

lemma S2_tally_decodes:
  "NdiTallyMessage_deserialize
     [0x02, 0x01, 0x07, 0x49, 0x96, 0x02, 0xD2, 0x54, 0x65, 0x73, 0x74, 0x43, 0x61, 0x6D]
     = Inr S2_tally"
  by code_simp

text \<open>
  C2. Codec round-trip. A message built by the \<open>ViscaMessage\<close> constructor (protocol
  type \<open>VISCA\<close>) whose \<open>length\<close> field equals the size of its \<open>data\<close> is returned
  unchanged by \<open>deserialize\<close> applied to its \<open>serialize\<close>; so is a message built by the
  \<open>NdiTallyMessage\<close> constructor whose source name has at most 255 bytes.
\<close>

theorem codec_round_trip:
  "(protocol_type m = VISCA \<and> unat (length_field m) = length (data m)
      \<longrightarrow> ViscaMessage_deserialize (ViscaMessage_serialize m) = Inr m)
   \<and> (ndi_protocol_type t = NDI_TALLY \<and> length (ndi_source_name t) \<le> 255
      \<longrightarrow> NdiTallyMessage_deserialize (NdiTallyMessage_serialize t) = Inr t)"
  using ViscaMessage_round_trip NdiTallyMessage_round_trip by blast

text \<open>The round trip on the S1 request frame and on the S2 tally frame.\<close>

theorem codec_round_trip_witness:
  "(protocol_type S1_request = VISCA
      \<and> unat (length_field S1_request) = length (data S1_request))
   \<and> ViscaMessage_deserialize (ViscaMessage_serialize S1_request) = Inr S1_request
   \<and> ViscaMessage_serialize S1_request
       = [0x01, 0x01, 0x03, 0x00, 0x01, 0x00, 0x09,
          0x81, 0x01, 0x06, 0x01, 0x0A, 0x0A, 0x03, 0x01, 0xFF]
   \<and> (ndi_protocol_type S2_tally = NDI_TALLY \<and> length (ndi_source_name S2_tally) \<le> 255)
   \<and> NdiTallyMessage_deserialize (NdiTallyMessage_serialize S2_tally) = Inr S2_tally
   \<and> NdiTallyMessage_serialize S2_tally
       = [0x02, 0x01, 0x07, 0x49, 0x96, 0x02, 0xD2, 0x54, 0x65, 0x73, 0x74, 0x43, 0x61, 0x6D]"
  using codec_round_trip [of S1_request S2_tally]
  by (simp add: S1_request_def S1_payload_def S2_tally_def ViscaMessage_serialize_def
      htons_store_def NdiTallyMessage_serialize_def byte_of_char_def)

text \<open>
  C9. Codec truncation. For a valid message and every \<open>k\<close> below the size of its
  serialization, \<open>deserialize\<close> of the first \<open>k\<close> bytes throws: the header exception
  when \<open>k < 7\<close>, the payload (or source name) exception from 7 on.
\<close>

theorem codec_truncation:
  "(protocol_type m = VISCA \<and> unat (length_field m) = length (data m)
      \<and> k < length (ViscaMessage_serialize m)
      \<longrightarrow> ViscaMessage_deserialize (take k (ViscaMessage_serialize m))
            = Inl (if k < 7 then Message_too_short_for_header else Message_data_incomplete))
   \<and> (ndi_protocol_type t = NDI_TALLY \<and> length (ndi_source_name t) \<le> 255
      \<and> j < length (NdiTallyMessage_serialize t)
      \<longrightarrow> NdiTallyMessage_deserialize (take j (NdiTallyMessage_serialize t))
            = Inl (if j < 7 then Buffer_too_small_for_NDI_tally_message
                   else Buffer_too_small_for_NDI_source_name))"
  using ViscaMessage_truncated NdiTallyMessage_truncated by blast

text \<open>
  The datagram of scenario S5, nine bytes of the S1 frame, and the three-byte buffer of
  the test \<open>InvalidMessageDeserialization\<close>, three bytes of the S2 frame.
\<close>

theorem codec_truncation_witness:
  "(protocol_type S1_request = VISCA
      \<and> unat (length_field S1_request) = length (data S1_request)
      \<and> 9 < length (ViscaMessage_serialize S1_request))
   \<and> ViscaMessage_deserialize [0x01, 0x01, 0x03, 0x00, 0x01, 0x00, 0x09, 0x81, 0x01]
       = Inl Message_data_incomplete
   \<and> (ndi_protocol_type S2_tally = NDI_TALLY \<and> length (ndi_source_name S2_tally) \<le> 255
      \<and> 3 < length (NdiTallyMessage_serialize S2_tally))
   \<and> NdiTallyMessage_deserialize [0x02, 0x01, 0x07]
       = Inl Buffer_too_small_for_NDI_tally_message"
  using codec_truncation [of S1_request 9 S2_tally 3]
  by (simp add: S1_request_def S1_payload_def S2_tally_def ViscaMessage_serialize_def
      htons_store_def NdiTallyMessage_serialize_def byte_of_char_def)

section \<open>SRT ingress\<close>

text \<open>
  C6. Unknown tag rejection. A received datagram whose first byte is neither \<open>VISCA\<close>
  (0x01) nor \<open>NDI_TALLY\<close> (0x02) is refused by the server's ingress switch as an
  unknown protocol type, whatever bytes follow.
\<close>

theorem unknown_tag_rejected:
  assumes "tag \<noteq> VISCA" and "tag \<noteq> NDI_TALLY"
  shows "handle_srt_client_decode (tag # rest) = Inl (Unknown_protocol_type tag)"
  using assms by (simp add: handle_srt_client_decode_def)

theorem unknown_tag_rejected_witness:
  "(0x03::u8) \<noteq> VISCA \<and> (0x03::u8) \<noteq> NDI_TALLY
   \<and> handle_srt_client_decode (0x03 # [0x00, 0x01, 0x00, 0x09] @ S1_payload)
       = Inl (Unknown_protocol_type 0x03)"
  using unknown_tag_rejected [of "0x03" "[0x00, 0x01, 0x00, 0x09] @ S1_payload"]
  by simp

text \<open>
  The ingress switch erases the tag byte and then calls \<open>deserialize\<close>, which reads its
  fields at the offsets of a buffer that still has the tag: the S1 request frame is
  refused as incomplete.
\<close>

lemma ingress_S1_request:
  "handle_srt_client_decode (ViscaMessage_serialize S1_request)
     = Inl (Protocol_error Message_data_incomplete)"
  by (simp add: handle_srt_client_decode_def ViscaMessage_serialize_def htons_store_def
      S1_request_def S1_payload_def ViscaMessage_deserialize_def ntohs_load_def)

section \<open>Client egress\<close>

text \<open>
  C1. The client on the S1 input: with the counter at 0, the nine bytes of the pan
  command read from the controller endpoint of camera 3 leave as a datagram of five
  header bytes (camera id, sequence 1, length 9) and the payload. It has no protocol tag
  and no type byte, so it is not the frame \<open>01 01 03 00 01 00 09 ...\<close> that
  \<open>ViscaMessage::serialize\<close> builds for the same message.
\<close>

theorem client_egress_S1:
  "snd (monitor_endpoints_forward 0 endpoint3 0 9 (S1_payload @ replicate 1491 0))
     = [0x03, 0x00, 0x01, 0x00, 0x09, 0x81, 0x01, 0x06, 0x01, 0x0A, 0x0A, 0x03, 0x01, 0xFF]
   \<and> snd (monitor_endpoints_forward 0 endpoint3 0 9 (S1_payload @ replicate 1491 0))
     \<noteq> [0x01, 0x01, 0x03, 0x00, 0x01, 0x00, 0x09,
         0x81, 0x01, 0x06, 0x01, 0x0A, 0x0A, 0x03, 0x01, 0xFF]
   \<and> ViscaMessage_serialize S1_request
     = [0x01, 0x01, 0x03, 0x00, 0x01, 0x00, 0x09,
        0x81, 0x01, 0x06, 0x01, 0x0A, 0x0A, 0x03, 0x01, 0xFF]"
  by (simp add: monitor_endpoints_forward_def send_visca_command_buffer_def htons_store_def
      endpoint3_def S1_payload_def S1_request_def ViscaMessage_serialize_def Let_def)

section \<open>Request and response\<close>

text \<open>
  C8. Sequence correlation. Every datagram that \<open>process_visca_message\<close> hands to
  \<open>srt_send\<close> answers a Command or Inquiry and is the serialization of a message of
  type Response with the request's camera id and the request's sequence; every message
  that \<open>monitor_cameras\<close> queues for bytes a camera sent by itself has sequence zero.
\<close>

theorem sequence_correlation:
  "(d \<in> set (snd (process_visca_message cameras msg send_result resp_size response))
      \<longrightarrow> (type_field msg = COMMAND \<or> type_field msg = INQUIRY)
          \<and> d = ViscaMessage_serialize
                  \<lparr> protocol_type = VISCA, type_field = RESPONSE,
                    camera_id = camera_id msg, sequence = sequence msg,
                    length_field = of_int resp_size,
                    data = take (nat resp_size) response \<rparr>
          \<and> d ! 0 = VISCA \<and> d ! 1 = RESPONSE \<and> d ! 2 = camera_id msg
          \<and> ntohs_load (d ! 3) (d ! 4) = sequence msg)
   \<and> (q \<in> set (snd (monitor_cameras_camera cid camera io))
      \<longrightarrow> q_camera_id q = cid \<and> q_sequence q = 0)"
  by (auto simp add: process_visca_message_def monitor_cameras_camera_def
      ViscaMessage_serialize_def htons_store_def ntohs_load_htons_store Let_def
      split: option.splits if_splits prod.splits)

text \<open>
  Scenario S1 on the server: camera 3 acknowledges the request of sequence 1 with
  \<open>90 41 FF\<close> and the response frame is \<open>01 02 03 00 01 00 03 90 41 FF\<close>; the same
  bytes arriving unrequested are queued with sequence 0.
\<close>

theorem sequence_correlation_witness:
  "[0x01, 0x02, 0x03, 0x00, 0x01, 0x00, 0x03, 0x90, 0x41, 0xFF]
     \<in> set (snd (process_visca_message [3 \<mapsto> camera3] S1_request 9 3 S1_reply_buffer))
   \<and> ntohs_load 0x00 0x01 = sequence S1_request
   \<and> \<lparr> q_camera_id = 3, q_sequence = 0, q_length = 3, q_data = [0x90, 0x41, 0xFF] \<rparr>
     \<in> set (snd (monitor_cameras_camera 3 camera3 S1_reply_io))"
  using sequence_correlation
    [of "[0x01, 0x02, 0x03, 0x00, 0x01, 0x00, 0x03, 0x90, 0x41, 0xFF]"
      "[3 \<mapsto> camera3]" S1_request 9 3 S1_reply_buffer
      "\<lparr> q_camera_id = 3, q_sequence = 0, q_length = 3, q_data = [0x90, 0x41, 0xFF] \<rparr>"
      3 camera3 S1_reply_io]
  by (simp add: process_visca_message_def monitor_cameras_camera_def S1_request_def
      S1_reply_io_def S1_reply_buffer_def camera3_def ViscaMessage_serialize_def
      htons_store_def ntohs_load_def)

section \<open>Tally translator\<close>

text \<open>
  C3 as stated fails on camera 3: for \<open>PROGRAM_PREVIEW\<close> the bytes written
  are not the program command.
\<close>

theorem program_preview_not_program_command:
  "connected camera3 \<and>
   snd (snd (send_tally_command camera3 PROGRAM_PREVIEW 8 100))
     \<noteq> [(socket_fd camera3, program_tally_command (ndi_mapping camera3))]"
  by (simp add: send_tally_command_def select_tally_command_def camera3_def test_mapping_def
      Let_def)

text \<open>
  C3, amended. \<open>PROGRAM_PREVIEW\<close> takes the \<open>default\<close> branch of the switch, shared with
  \<open>OFF\<close>: on a connected camera with a non-empty off command and a \<open>send\<close> that does
  not fail, the bytes written to the camera's socket are the mapping's off command.
\<close>

theorem program_preview_sends_off_command:
  assumes "connected cam" and "tally_off_command (ndi_mapping cam) \<noteq> []"
    and "0 \<le> send_result"
  shows "snd (snd (send_tally_command cam PROGRAM_PREVIEW send_result now))
           = [(socket_fd cam, tally_off_command (ndi_mapping cam))]"
  using assms by (simp add: send_tally_command_def select_tally_command_def Let_def)

theorem program_preview_sends_off_command_witness:
  "connected camera3 \<and> tally_off_command (ndi_mapping camera3) \<noteq> [] \<and> (0::int) \<le> 8
   \<and> snd (snd (send_tally_command camera3 PROGRAM_PREVIEW 8 100))
       = [(5, [0x81, 0x01, 0x7E, 0x01, 0x0A, 0x00, 0x03, 0xFF])]"
  using program_preview_sends_off_command [of camera3 8 100]
  by (simp add: camera3_def test_mapping_def)

text \<open>
  C4 as stated fails on camera 3 with \<open>tally_program_enabled\<close> false: the
  transition to \<open>PROGRAM\<close> writes the program command.
\<close>

theorem disabled_program_command_is_written:
  "tally_program_enabled (ndi_mapping camera3_program_disabled) = False
   \<and> snd (snd (update_tally_state camera3_program_disabled PROGRAM 8 100))
       = [(5, [0x81, 0x01, 0x7E, 0x01, 0x0A, 0x00, 0x02, 0xFF])]"
  by (simp add: update_tally_state_def send_tally_command_def select_tally_command_def
      camera3_program_disabled_def camera3_def test_mapping_def Let_def)

text \<open>
  C4, amended. The enable flags are not consulted: \<open>update_tally_state\<close> returns the
  same flag, writes the same bytes and leaves the same camera whatever the two flags
  are. So a transition to a state whose flag is false, on a connected camera with a
  non-empty command for that state and a \<open>send\<close> that does not fail, writes the command
  and sets \<open>current_tally_state\<close> to the new state.
\<close>

theorem enable_flags_not_consulted:
  "update_tally_state (set_enable_flags p q cam) new_state send_result now
     = (fst (update_tally_state cam new_state send_result now),
        set_enable_flags p q (fst (snd (update_tally_state cam new_state send_result now))),
        snd (snd (update_tally_state cam new_state send_result now)))
   \<and> (connected cam \<and> new_state \<noteq> current_tally_state cam
        \<and> select_tally_command (ndi_mapping cam) new_state \<noteq> [] \<and> 0 \<le> send_result
      \<longrightarrow> snd (snd (update_tally_state cam new_state send_result now))
            = [(socket_fd cam, select_tally_command (ndi_mapping cam) new_state)]
          \<and> current_tally_state (fst (snd (update_tally_state cam new_state send_result now)))
            = new_state)"
  by (simp add: update_tally_state_def send_tally_command_def select_tally_command_def
      set_enable_flags_def Let_def)

theorem enable_flags_not_consulted_witness:
  "(connected camera3_program_disabled
      \<and> PROGRAM \<noteq> current_tally_state camera3_program_disabled
      \<and> select_tally_command (ndi_mapping camera3_program_disabled) PROGRAM \<noteq> []
      \<and> (0::int) \<le> 8)
   \<and> snd (snd (update_tally_state camera3_program_disabled PROGRAM 8 100))
       = [(5, [0x81, 0x01, 0x7E, 0x01, 0x0A, 0x00, 0x02, 0xFF])]
   \<and> current_tally_state
       (fst (snd (update_tally_state camera3_program_disabled PROGRAM 8 100))) = PROGRAM"
  using enable_flags_not_consulted [of True True camera3_program_disabled PROGRAM 8 100]
  by (simp add: select_tally_command_def camera3_program_disabled_def camera3_def
      test_mapping_def)

text \<open>
  C10. Tally send atomicity on failure. If the camera is not connected, or the command
  selected for the state is empty, or \<open>send\<close> fails, then \<open>send_tally_command\<close>
  returns false and leaves \<open>current_tally_state\<close> and \<open>last_tally_update\<close> as they
  were.
\<close>

theorem send_tally_command_failure_atomic:
  assumes "\<not> connected cam \<or> select_tally_command (ndi_mapping cam) st = []
             \<or> send_result < 0"
  shows "fst (send_tally_command cam st send_result now) = False
         \<and> current_tally_state (fst (snd (send_tally_command cam st send_result now)))
             = current_tally_state cam
         \<and> last_tally_update (fst (snd (send_tally_command cam st send_result now)))
             = last_tally_update cam"
  using assms by (auto simp add: send_tally_command_def Let_def)

text \<open>
  On camera 3: a failed \<open>send\<close> of the program command, the same camera disconnected,
  and a mapping whose preview command is empty.
\<close>

theorem send_tally_command_failure_atomic_witness:
  "(-1::int) < 0
   \<and> fst (send_tally_command camera3 PROGRAM (-1) 100) = False
   \<and> current_tally_state (fst (snd (send_tally_command camera3 PROGRAM (-1) 100))) = OFF
   \<and> last_tally_update (fst (snd (send_tally_command camera3 PROGRAM (-1) 100))) = 0
   \<and> connected camera3_disconnected = False
   \<and> fst (send_tally_command camera3_disconnected PROGRAM 8 100) = False
   \<and> current_tally_state (fst (snd (send_tally_command camera3_disconnected PROGRAM 8 100)))
       = OFF
   \<and> last_tally_update (fst (snd (send_tally_command camera3_disconnected PROGRAM 8 100))) = 0
   \<and> select_tally_command (ndi_mapping camera3_no_preview) PREVIEW = []
   \<and> fst (send_tally_command camera3_no_preview PREVIEW 8 100) = False
   \<and> current_tally_state (fst (snd (send_tally_command camera3_no_preview PREVIEW 8 100)))
       = OFF
   \<and> last_tally_update (fst (snd (send_tally_command camera3_no_preview PREVIEW 8 100))) = 0"
  using send_tally_command_failure_atomic [of camera3 PROGRAM "-1" 100]
    send_tally_command_failure_atomic [of camera3_disconnected PROGRAM 8 100]
    send_tally_command_failure_atomic [of camera3_no_preview PREVIEW 8 100]
  by (simp add: camera3_def camera3_disconnected_def camera3_no_preview_def
      select_tally_command_def test_mapping_def)

subsection \<open>The current tally state over a run\<close>

lemma update_tally_state_current:
  "current_tally_state (fst (snd (update_tally_state cam st send_result now)))
     = (if snd (snd (update_tally_state cam st send_result now)) = []
        then current_tally_state cam else st)"
  by (simp add: update_tally_state_def send_tally_command_def Let_def)

lemma monitor_cameras_camera_current:
  "current_tally_state (fst (monitor_cameras_camera cid cam io)) = current_tally_state cam"
  by (simp add: monitor_cameras_camera_def connect_to_camera_def Let_def
      split: prod.splits if_splits)

lemma server_step_current:
  "current_tally_state (snd (fst (server_step cid s e)))
     = last (current_tally_state (snd s)
             # (if snd (server_step cid s e) = [] then []
                else (case fst s (map_ndi_source_name (ndi_mapping (snd s))) of
                        Some st \<Rightarrow> [st] | None \<Rightarrow> [])))"
proof (cases s)
  case (Pair tbl cam)
  show ?thesis
  proof (cases e)
    case (Srt_tally msg)
    with Pair show ?thesis by simp
  next
    case (Tally_tick send_result now)
    with Pair show ?thesis
      by (simp add: handle_ndi_tally_camera_def update_tally_state_current
          split: option.splits)
  next
    case (Monitor_pass io)
    with Pair show ?thesis by (simp add: monitor_cameras_camera_current)
  qed
qed

text \<open>
  C7. The \<open>current_tally\<close> invariant. After any sequence of tally frames, ticks and
  monitor passes, from any starting table and camera, \<open>current_tally_state\<close> is the
  state of the last command written to the camera's socket during the run, and the
  starting value when none was written: it never takes the value of a tick whose write
  did not happen or failed.
\<close>

theorem current_tally_is_last_written:
  "current_tally_state (snd (server_run cid s evs))
     = last (current_tally_state (snd s) # written_states cid s evs)"
proof (induction evs arbitrary: s)
  case Nil
  show ?case by simp
next
  case (Cons e es)
  have "current_tally_state (snd (server_run cid s (e # es)))
          = last (current_tally_state (snd (fst (server_step cid s e)))
                  # written_states cid (fst (server_step cid s e)) es)"
    using Cons.IH [of "fst (server_step cid s e)"] by simp
  also have "\<dots> = last (current_tally_state (snd s) # written_states cid s (e # es))"
    by (simp add: server_step_current split: option.splits)
  finally show ?case .
qed

text \<open>
  The run \<open>tally_events\<close> on camera 3: after the failed write of Preview the state is
  still Program and the camera is disconnected; at the end the three states written are
  Program, Preview and ProgramPreview and the state is the last of them.
\<close>

lemma tally_events_run:
  "written_states 3 (Map.empty, camera3) (take 4 tally_events) = [PROGRAM]
   \<and> current_tally_state (snd (server_run 3 (Map.empty, camera3) (take 4 tally_events)))
       = PROGRAM
   \<and> connected (snd (server_run 3 (Map.empty, camera3) (take 4 tally_events))) = False
   \<and> written_states 3 (Map.empty, camera3) tally_events
       = [PROGRAM, PREVIEW, PROGRAM_PREVIEW]
   \<and> current_tally_state (snd (server_run 3 (Map.empty, camera3) tally_events))
       = PROGRAM_PREVIEW"
  by (simp add: tally_events_def S2_tally_def camera3_def test_mapping_def S1_reply_io_def
      process_ndi_tally_message_def handle_ndi_tally_camera_def update_tally_state_def
      send_tally_command_def select_tally_command_def monitor_cameras_camera_def
      connect_to_camera_def Let_def)

section \<open>Lock order\<close>

text \<open>
  C5 as stated fails on the tick of \<open>handle_ndi_tally\<close>: it takes
  \<open>cameras_mutex\<close> while it holds \<open>ndi_tally_mutex_\<close>, the inverse of the order
  \<open>cameras\<close>, \<open>tally_table\<close>, \<open>queues\<close>.
\<close>

theorem tally_tick_inverts_cameras_first:
  "\<not> keeps_order cameras_first [] (server_locks Handle_ndi_tally)"
  by (simp add: handle_ndi_tally_locks_def)

lemma keeps_order_queue_pushes:
  "keeps_order tally_first [cameras_mutex]
     (concat (map (\<lambda>q. if q then [Lock queues_mutex, Unlock queues_mutex] else []) queued)
        @ [Unlock cameras_mutex])"
  by (induction queued) simp_all

text \<open>
  C5, amended. The order the server keeps is \<open>tally_table\<close>, \<open>cameras\<close>, \<open>queues\<close>:
  no pass of \<open>handle_ndi_tally\<close>, \<open>handle_srt_client\<close>, \<open>monitor_cameras\<close> or \<open>stop\<close>
  takes a mutex while it holds one that comes later in that order.
\<close>

theorem server_keeps_tally_first:
  "keeps_order tally_first [] (server_locks p)"
proof (cases p)
  case Handle_ndi_tally
  then show ?thesis by (simp add: handle_ndi_tally_locks_def)
next
  case (Handle_srt_client buffer)
  then show ?thesis
    by (simp add: handle_srt_client_locks_def process_visca_message_locks_def
        process_ndi_tally_message_locks_def
        split: sum.split ingress_error.split Message.split)
next
  case (Monitor_cameras queued)
  then show ?thesis
    by (simp add: monitor_cameras_locks_def keeps_order_queue_pushes)
next
  case Stop
  then show ?thesis by (simp add: stop_locks_def)
qed

end
